theory Spec2Isabelle
  imports Complex_Main "HOL-Library.Sublist"
begin

section \<open>Values of the colour engine\<close>

text \<open>
  An RGB object \<open>{r, g, b}\<close> as \<open>hexToRgb\<close> builds it: three integers.  The variables of the
  source that are called \<open>r\<close>, \<open>g\<close>, \<open>b\<close> are written \<open>cr\<close>, \<open>cg\<close>, \<open>cb\<close> below, the
  record owning the short names.
\<close>

record RGB =
  r :: int
  g :: int
  b :: int

text \<open>
  The Numbers handed to \<open>rgbToHex\<close>: an integer, or \<open>NaN\<close> (which \<open>Number("NaN")\<close> and
  arithmetic on \<open>undefined\<close> produce in \<open>extractColorsFromPixels\<close>).
\<close>

datatype number = Num int | NaN

text \<open>The one exception the engine can raise: calling a property that is not a function.\<close>

datatype error = TypeError

section \<open>ColorCodec: \<open>hexToRgb\<close> and \<open>rgbToHex\<close>\<close>

subsection \<open>The regular expression \<open>/^#?([a-f\d]{2})([a-f\d]{2})([a-f\d]{2})$/i\<close>\<close>

text \<open>The class \<open>[a-f\d]\<close> under the flag \<open>i\<close>.\<close>

definition hexClass :: "char \<Rightarrow> bool" where
  "hexClass c = (c \<in> set ''abcdef'' \<or> c \<in> set ''ABCDEF'' \<or> c \<in> set ''0123456789'')"

text \<open>Three groups of two class characters, then the end of the input.\<close>

fun groups3 :: "string \<Rightarrow> (string \<times> string \<times> string) option" where
  "groups3 [c1, c2, c3, c4, c5, c6] =
     (if hexClass c1 \<and> hexClass c2 \<and> hexClass c3 \<and> hexClass c4 \<and> hexClass c5 \<and> hexClass c6
      then Some ([c1, c2], [c3, c4], [c5, c6]) else None)"
| "groups3 _ = None"

text \<open>
  \<open>exec\<close>: the greedy \<open>#?\<close> first consumes a leading \<open>#\<close>; when the rest does not match,
  the matcher backtracks and tries the groups from the start of the input.
\<close>

definition hexRegExp_exec :: "string \<Rightarrow> (string \<times> string \<times> string) option" where
  "hexRegExp_exec hex =
     (case (case hex of [] \<Rightarrow> None
                      | c # rest \<Rightarrow> if c = CHR ''#'' then groups3 rest else None) of
        Some res \<Rightarrow> Some res
      | None \<Rightarrow> groups3 hex)"

subsection \<open>\<open>parseInt(s, 16)\<close> on a string of hex digits\<close>

text \<open>
  The source applies \<open>parseInt\<close> to the groups of a match only, so every character is a hex
  digit; no other character has a value here.
\<close>

definition hexDigitValue :: "char \<Rightarrow> int" where
  "hexDigitValue c =
     (case map_of (zip ''0123456789abcdefABCDEF''
                       [0, 1, 2, 3, 4, 5, 6, 7, 8, 9, 10, 11, 12, 13, 14, 15, 10, 11, 12, 13, 14, 15]) c of
        Some v \<Rightarrow> v
      | None \<Rightarrow> 0)"

definition parseInt16 :: "string \<Rightarrow> int" where
  "parseInt16 s = foldl (\<lambda>acc c. 16 * acc + hexDigitValue c) 0 s"

subsection \<open>\<open>hexToRgb\<close>, in \<open>M3ColorUtils\<close> and in \<open>M3HCTColor\<close>\<close>

text \<open>\<open>M3ColorUtils.hexToRgb\<close> returns \<open>null\<close> (here \<open>None\<close>) when the expression does not match.\<close>

definition M3ColorUtils_hexToRgb :: "string \<Rightarrow> RGB option" where
  "M3ColorUtils_hexToRgb hex =
     (case hexRegExp_exec hex of
        Some (g1, g2, g3) \<Rightarrow> Some \<lparr>r = parseInt16 g1, g = parseInt16 g2, b = parseInt16 g3\<rparr>
      | None \<Rightarrow> None)"

text \<open>\<open>M3HCTColor.hexToRgb\<close> returns \<open>{ r: 0, g: 0, b: 0 }\<close> when it does not match.\<close>

definition M3HCTColor_hexToRgb :: "string \<Rightarrow> RGB" where
  "M3HCTColor_hexToRgb hex =
     (case hexRegExp_exec hex of
        Some (g1, g2, g3) \<Rightarrow> \<lparr>r = parseInt16 g1, g = parseInt16 g2, b = parseInt16 g3\<rparr>
      | None \<Rightarrow> \<lparr>r = 0, g = 0, b = 0\<rparr>)"

subsection \<open>\<open>Number.prototype.toString(16)\<close> and \<open>String.prototype.toUpperCase\<close>\<close>

definition hexDigitChar :: "nat \<Rightarrow> char" where
  "hexDigitChar d = ''0123456789abcdef'' ! d"

fun toString16_nat :: "nat \<Rightarrow> string" where
  "toString16_nat n =
     (if n < 16 then [hexDigitChar n]
      else toString16_nat (n div 16) @ [hexDigitChar (n mod 16)])"

declare toString16_nat.simps [simp del]

text \<open>A negative integer prints as \<open>-\<close> and the digits of its magnitude; \<open>NaN\<close> prints as \<open>NaN\<close>.\<close>

fun toString16 :: "number \<Rightarrow> string" where
  "toString16 (Num x) =
     (if x < 0 then ''-'' @ toString16_nat (nat (- x)) else toString16_nat (nat x))"
| "toString16 NaN = ''NaN''"

text \<open>Upper-casing, on the ASCII letters (the strings built here hold nothing else).\<close>

definition toUpperChar :: "char \<Rightarrow> char" where
  "toUpperChar c =
     (case map_of (zip ''abcdefghijklmnopqrstuvwxyz'' ''ABCDEFGHIJKLMNOPQRSTUVWXYZ'') c of
        Some u \<Rightarrow> u
      | None \<Rightarrow> c)"

definition toUpperCase :: "string \<Rightarrow> string" where
  "toUpperCase s = map toUpperChar s"

subsection \<open>\<open>rgbToHex\<close>, in \<open>M3ColorUtils\<close> and in \<open>M3HCTColor\<close>\<close>

text \<open>The callback of \<open>map\<close>: \<open>x.toString(16)\<close>, with a \<open>0\<close> in front of a single character.\<close>

definition channelHex :: "number \<Rightarrow> string" where
  "channelHex x = (let hex = toString16 x in if length hex = 1 then ''0'' @ hex else hex)"

definition M3ColorUtils_rgbToHex :: "number \<Rightarrow> number \<Rightarrow> number \<Rightarrow> string" where
  "M3ColorUtils_rgbToHex cr cg cb = ''#'' @ toUpperCase (concat (map channelHex [cr, cg, cb]))"

definition M3HCTColor_rgbToHex :: "number \<Rightarrow> number \<Rightarrow> number \<Rightarrow> string" where
  "M3HCTColor_rgbToHex cr cg cb = ''#'' @ toUpperCase (concat (map channelHex [cr, cg, cb]))"

subsection \<open>The spec's wording of a well-formed colour string\<close>

text \<open>
  Exactly six hex digits, of either case, with an optional leading \<open>#\<close>; and the output form
  \<open>#RRGGBB\<close> with upper-case digits.
\<close>

definition isHexDigit :: "char \<Rightarrow> bool" where
  "isHexDigit c = (c \<in> set ''0123456789abcdefABCDEF'')"

definition sixHexDigits :: "string \<Rightarrow> bool" where
  "sixHexDigits s = (length s = 6 \<and> list_all isHexDigit s)"

definition wellFormedHex :: "string \<Rightarrow> bool" where
  "wellFormedHex s = (sixHexDigits s \<or> (s \<noteq> [] \<and> hd s = CHR ''#'' \<and> sixHexDigits (tl s)))"

definition isUpperHexDigit :: "char \<Rightarrow> bool" where
  "isUpperHexDigit c = (c \<in> set ''0123456789ABCDEF'')"

definition canonicalHex :: "string \<Rightarrow> bool" where
  "canonicalHex s = (length s = 7 \<and> hd s = CHR ''#'' \<and> list_all isUpperHexDigit (tl s))"

text \<open>A channel formatted as two upper-case hex digits.\<close>

definition upperDigit :: "nat \<Rightarrow> char" where
  "upperDigit d = ''0123456789ABCDEF'' ! d"

definition twoUpperHexDigits :: "int \<Rightarrow> string" where
  "twoUpperHexDigits x = [upperDigit (nat x div 16), upperDigit (nat x mod 16)]"

section \<open>LuminanceContrast\<close>

text \<open>
  Luminances, contrasts and HCT coordinates are IEEE doubles in the source.  They are
  modelled as reals: each definition gives the exact value that the source computes up to
  rounding.  Divisors are never zero here except in the saturation of
  \<open>extractPrimaryColor\<close>, which has a model of its own below.
\<close>

text \<open>
  The gamma decoding that \<open>relativeLuminance\<close> and \<open>calculateLuminance\<close> write out once per
  channel: \<open>c <= 0.03928 ? c / 12.92 : Math.pow((c + 0.055) / 1.055, 2.4)\<close>.
\<close>

definition linearChannel :: "real \<Rightarrow> real" where
  "linearChannel c = (if c \<le> 0.03928 then c / 12.92 else ((c + 0.055) / 1.055) powr 2.4)"

definition relativeLuminance :: "int \<Rightarrow> int \<Rightarrow> int \<Rightarrow> real" where
  "relativeLuminance cr cg cb =
     (let rsrgb = real_of_int cr / 255;
          gsrgb = real_of_int cg / 255;
          bsrgb = real_of_int cb / 255
      in 0.2126 * linearChannel rsrgb + 0.7152 * linearChannel gsrgb + 0.0722 * linearChannel bsrgb)"

definition calculateLuminance :: "int \<Rightarrow> int \<Rightarrow> int \<Rightarrow> real" where
  "calculateLuminance cr cg cb =
     (let rsrgb = real_of_int cr / 255;
          gsrgb = real_of_int cg / 255;
          bsrgb = real_of_int cb / 255
      in 0.2126 * linearChannel rsrgb + 0.7152 * linearChannel gsrgb + 0.0722 * linearChannel bsrgb)"

definition M3HCTColor_contrastRatio :: "string \<Rightarrow> string \<Rightarrow> real" where
  "M3HCTColor_contrastRatio color1 color2 =
     (let rgb1 = M3HCTColor_hexToRgb color1;
          rgb2 = M3HCTColor_hexToRgb color2;
          luminance1 = relativeLuminance (r rgb1) (g rgb1) (b rgb1);
          luminance2 = relativeLuminance (r rgb2) (g rgb2) (b rgb2);
          lighter = max luminance1 luminance2;
          darker = min luminance1 luminance2
      in (lighter + 0.05) / (darker + 0.05))"

text \<open>\<open>M3ColorUtils.contrastRatio\<close> returns 1 when either colour does not parse.\<close>

definition M3ColorUtils_contrastRatio :: "string \<Rightarrow> string \<Rightarrow> real" where
  "M3ColorUtils_contrastRatio color1 color2 =
     (case M3ColorUtils_hexToRgb color1 of
        None \<Rightarrow> 1
      | Some rgb1 \<Rightarrow>
          (case M3ColorUtils_hexToRgb color2 of
             None \<Rightarrow> 1
           | Some rgb2 \<Rightarrow>
               (let luminance1 = calculateLuminance (r rgb1) (g rgb1) (b rgb1);
                    luminance2 = calculateLuminance (r rgb2) (g rgb2) (b rgb2);
                    lighter = max luminance1 luminance2;
                    darker = min luminance1 luminance2
                in (lighter + 0.05) / (darker + 0.05))))"

definition M3HCTColor_getAccessibleTextColor :: "string \<Rightarrow> string" where
  "M3HCTColor_getAccessibleTextColor backgroundColor =
     (let rgb = M3HCTColor_hexToRgb backgroundColor;
          luminance = relativeLuminance (r rgb) (g rgb) (b rgb);
          blackContrast = M3HCTColor_contrastRatio backgroundColor ''#000000'';
          whiteContrast = M3HCTColor_contrastRatio backgroundColor ''#FFFFFF''
      in if blackContrast \<ge> 4.5 then ''#000000''
         else if whiteContrast \<ge> 4.5 then ''#FFFFFF''
         else if luminance > 0.5 then ''#000000'' else ''#FFFFFF'')"

definition M3ColorUtils_getAccessibleTextColor :: "string \<Rightarrow> string" where
  "M3ColorUtils_getAccessibleTextColor backgroundColor =
     (case M3ColorUtils_hexToRgb backgroundColor of
        None \<Rightarrow> ''#000000''
      | Some rgb \<Rightarrow>
          (let luminance = calculateLuminance (r rgb) (g rgb) (b rgb)
           in if luminance > 0.5 then ''#000000'' else ''#FFFFFF''))"

text \<open>
  The rule of the spec, in its words: black when the black contrast reaches 4.5, else white
  when the white contrast reaches 4.5, else the luminance midpoint test.
\<close>

definition accessibleTextColorRule :: "real \<Rightarrow> real \<Rightarrow> real \<Rightarrow> string" where
  "accessibleTextColorRule blackContrast whiteContrast luminance =
     (if blackContrast \<ge> 4.5 then ''#000000''
      else if whiteContrast \<ge> 4.5 then ''#FFFFFF''
      else if luminance > 0.5 then ''#000000''
      else ''#FFFFFF'')"

section \<open>ColorSpaceConverter: the class \<open>M3HCTColor\<close>\<close>

record M3HCTColor =
  hue :: real
  chroma :: real
  tone :: real

text \<open>\<open>Math.atan2(y, x)\<close>, by quadrant; \<open>atan2(0, 0)\<close> is \<open>0\<close>.\<close>

definition atan2 :: "real \<Rightarrow> real \<Rightarrow> real" where
  "atan2 y x =
     (if x > 0 then arctan (y / x)
      else if x < 0 \<and> y \<ge> 0 then arctan (y / x) + pi
      else if x < 0 \<and> y < 0 then arctan (y / x) - pi
      else if y > 0 then pi / 2
      else if y < 0 then - (pi / 2)
      else 0)"

text \<open>The XYZ to Lab step: \<open>ratio > epsilon ? Math.cbrt(ratio) : (kappa * ratio + 16) / 116\<close>.\<close>

definition labF :: "real \<Rightarrow> real" where
  "labF ratio = (if ratio > 0.008856 then root 3 ratio else (903.3 * ratio + 16) / 116)"

definition rgbToHct :: "int \<Rightarrow> int \<Rightarrow> int \<Rightarrow> real \<times> real \<times> real" where
  "rgbToHct cr cg cb =
     (let rNorm = real_of_int cr / 255;
          gNorm = real_of_int cg / 255;
          bNorm = real_of_int cb / 255;
          x = 0.4124564 * rNorm + 0.3575761 * gNorm + 0.1804375 * bNorm;
          y = 0.2126729 * rNorm + 0.7151522 * gNorm + 0.0721750 * bNorm;
          z = 0.0193339 * rNorm + 0.1191920 * gNorm + 0.9503041 * bNorm;
          xRatio = x / 0.95047;
          yRatio = y / 1.00000;
          zRatio = z / 1.08883;
          fx = labF xRatio;
          fy = labF yRatio;
          fz = labF zRatio;
          L = 116 * fy - 16;
          a = 500 * (fx - fy);
          bLab = 200 * (fy - fz);
          C = sqrt (a * a + bLab * bLab);
          hRad = atan2 bLab a;
          H0 = (hRad * 180) / pi;
          H = (if H0 < 0 then H0 + 360 else H0)
      in (H, C * 0.8, L))"

definition fromHex :: "string \<Rightarrow> M3HCTColor" where
  "fromHex hex =
     (let rgb = M3HCTColor_hexToRgb hex;
          (h, c, t) = rgbToHct (r rgb) (g rgb) (b rgb)
      in \<lparr>hue = h, chroma = c, tone = t\<rparr>)"

text \<open>The Lab to XYZ step of \<open>toRgb\<close>: \<open>f ** 3 > 0.008856 ? f ** 3 : (116 * f - 16) / 903.3\<close>.\<close>

definition labFinv :: "real \<Rightarrow> real" where
  "labFinv f = (if f ^ 3 > 0.008856 then f ^ 3 else (116 * f - 16) / 903.3)"

text \<open>The gamma encoding of \<open>toRgb\<close>, then the clip to \<open>[0, 1]\<close>.\<close>

definition gammaEncode :: "real \<Rightarrow> real" where
  "gammaEncode v = (if v > 0.0031308 then 1.055 * (v powr (1 / 2.4)) - 0.055 else 12.92 * v)"

definition clip01 :: "real \<Rightarrow> real" where
  "clip01 v = max 0 (min 1 v)"

text \<open>\<open>Math.round\<close>: the nearest integer, a half rounding up.\<close>

definition mathRound :: "real \<Rightarrow> int" where
  "mathRound v = \<lfloor>v + 1 / 2\<rfloor>"

definition toRgb :: "M3HCTColor \<Rightarrow> RGB" where
  "toRgb this =
     (let hRad = (hue this * pi) / 180;
          a = chroma this * cos hRad / 0.8;
          bb = chroma this * sin hRad / 0.8;
          L = tone this;
          fy = (L + 16) / 116;
          fx = fy + a / 500;
          fz = fy - bb / 200;
          x = labFinv fx * 0.95047;
          y = labFinv fy * 1.00000;
          z = labFinv fz * 1.08883;
          r0 = 3.2404542 * x - 1.5371385 * y - 0.4985314 * z;
          g0 = - 0.9692660 * x + 1.8760108 * y + 0.0415560 * z;
          b0 = 0.0556434 * x - 0.2040259 * y + 1.0572252 * z;
          r1 = clip01 (gammaEncode r0);
          g1 = clip01 (gammaEncode g0);
          b1 = clip01 (gammaEncode b0)
      in \<lparr>r = mathRound (r1 * 255), g = mathRound (g1 * 255), b = mathRound (b1 * 255)\<rparr>)"

text \<open>One channel of the result of \<open>toRgb\<close>, from its linear value.\<close>

definition linearOut :: "real \<Rightarrow> int" where
  "linearOut v = mathRound (clip01 (gammaEncode v) * 255)"

subsection \<open>Property lookup on an instance\<close>

text \<open>
  The class body declares \<open>toRgb\<close>, \<open>toHex\<close> and \<open>getHuePalette\<close> without \<open>static\<close>: with the
  constructor they are the properties of \<open>M3HCTColor.prototype\<close>.  Every other method is
  \<open>static\<close>, a property of the constructor function \<open>M3HCTColor\<close> itself.  An instance owns
  \<open>hue\<close>, \<open>chroma\<close> and \<open>tone\<close>, and its prototype chain ends in \<open>Object.prototype\<close>.
\<close>

definition M3HCTColor_prototype :: "string list" where
  "M3HCTColor_prototype = [''constructor'', ''toRgb'', ''toHex'', ''getHuePalette'']"

definition M3HCTColor_static :: "string list" where
  "M3HCTColor_static =
     [''fromHex'', ''fromRgb'', ''rgbToHct'', ''generateDynamicPalette'', ''adjustHue'',
      ''adjustChroma'', ''adjustTone'', ''generateTonalPalette'', ''rgbToHex'', ''hexToRgb'',
      ''contrastRatio'', ''relativeLuminance'', ''getAccessibleTextColor'']"

definition instanceOwn :: "string list" where
  "instanceOwn = [''hue'', ''chroma'', ''tone'']"

definition Object_prototype :: "string list" where
  "Object_prototype =
     [''constructor'', ''hasOwnProperty'', ''isPrototypeOf'', ''propertyIsEnumerable'',
      ''toLocaleString'', ''toString'', ''valueOf'', ''__proto__'', ''__defineGetter__'',
      ''__defineSetter__'', ''__lookupGetter__'', ''__lookupSetter__'']"

text \<open>Whether \<open>this.name\<close> finds a property, for \<open>this\<close> an instance of \<open>M3HCTColor\<close>.\<close>

definition instanceHas :: "string \<Rightarrow> bool" where
  "instanceHas name =
     (name \<in> set instanceOwn \<or> name \<in> set M3HCTColor_prototype \<or> name \<in> set Object_prototype)"

text \<open>
  \<open>toHex() { const rgb = this.toRgb(); return this.rgbToHex(rgb.r, rgb.g, rgb.b); }\<close>:
  calling \<open>this.rgbToHex\<close> raises a \<open>TypeError\<close> unless the lookup on the instance finds it.
\<close>

definition toHex :: "M3HCTColor \<Rightarrow> error + string" where
  "toHex this =
     (let rgb = toRgb this
      in if instanceHas ''rgbToHex''
         then Inr (M3HCTColor_rgbToHex (Num (r rgb)) (Num (g rgb)) (Num (b rgb)))
         else Inl TypeError)"

subsection \<open>The static helpers \<open>adjustHue\<close>, \<open>adjustChroma\<close>, \<open>adjustTone\<close>\<close>

text \<open>
  The remainder operator \<open>%\<close> of the source language: the result has the sign of the
  dividend and the magnitude of \<open>|n| mod |d|\<close> (the divisor is 360 wherever it is used).
\<close>

definition jsRemainder :: "real \<Rightarrow> real \<Rightarrow> real" where
  "jsRemainder n d = sgn n * (\<bar>n\<bar> - \<bar>d\<bar> * real_of_int \<lfloor>\<bar>n\<bar> / \<bar>d\<bar>\<rfloor>)"

definition adjustHue :: "M3HCTColor \<Rightarrow> real \<Rightarrow> M3HCTColor" where
  "adjustHue color delta =
     \<lparr>hue = jsRemainder (hue color + delta) 360, chroma = chroma color, tone = tone color\<rparr>"

definition adjustChroma :: "M3HCTColor \<Rightarrow> real \<Rightarrow> M3HCTColor" where
  "adjustChroma color delta =
     \<lparr>hue = hue color, chroma = max 0 (chroma color + delta), tone = tone color\<rparr>"

definition adjustTone :: "M3HCTColor \<Rightarrow> real \<Rightarrow> M3HCTColor" where
  "adjustTone color delta =
     \<lparr>hue = hue color, chroma = chroma color, tone = max 0 (min 100 (tone color + delta))\<rparr>"

text \<open>The invariants of the data model: hue in \<open>[0, 360)\<close>, chroma at least 0, tone in \<open>[0, 100]\<close>.\<close>

definition hctInvariant :: "M3HCTColor \<Rightarrow> bool" where
  "hctInvariant c =
     (0 \<le> hue c \<and> hue c < 360 \<and> 0 \<le> chroma c \<and> 0 \<le> tone c \<and> tone c \<le> 100)"

section \<open>SchemeGenerator: \<open>M3ColorExtractor.generateSchemeFromColor\<close>\<close>

text \<open>An exception raised by a step ends the evaluation; later steps do not run.\<close>

definition bindE :: "error + 'a \<Rightarrow> ('a \<Rightarrow> error + 'b) \<Rightarrow> error + 'b" where
  "bindE m f = (case m of Inl e \<Rightarrow> Inl e | Inr v \<Rightarrow> f v)"

text \<open>
  An object literal evaluates its property values in the order written; the object is a list
  of keys and values in that order.
\<close>

fun objectLiteral :: "(string \<times> (error + string)) list \<Rightarrow> error + (string \<times> string) list" where
  "objectLiteral [] = Inr []"
| "objectLiteral ((k, v) # rest) =
     bindE v (\<lambda>x. bindE (objectLiteral rest) (\<lambda>xs. Inr ((k, x) # xs)))"

text \<open>\<open>M3HCTColor.getAccessibleTextColor(c.toHex())\<close>.\<close>

definition textColorOf :: "M3HCTColor \<Rightarrow> error + string" where
  "textColorOf c = bindE (toHex c) (\<lambda>h. Inr (M3HCTColor_getAccessibleTextColor h))"

text \<open>
  The constants before the \<open>return\<close> are evaluated first, then the properties of the
  returned object in the order written (\<open>onColorTone\<close> is never read and is left out).
\<close>

definition generateSchemeFromColor :: "string \<Rightarrow> bool \<Rightarrow> error + (string \<times> string) list" where
  "generateSchemeFromColor primaryColor isDark =
     (let hctColor = fromHex primaryColor;
          baseTone = (if isDark then 20 else 80);
          containerTone = (if isDark then 30 else 90)
      in bindE (toHex hctColor) (\<lambda>primary.
         bindE (toHex (adjustTone hctColor (containerTone - tone hctColor))) (\<lambda>primaryContainer.
           let secondary = adjustHue hctColor 60;
               secondaryAdjusted = adjustTone secondary (baseTone - tone secondary);
               tertiary = adjustHue hctColor 120;
               tertiaryAdjusted = adjustTone tertiary (baseTone - tone tertiary);
               surfaceHct = \<lparr>hue = hue hctColor, chroma = max 0 (chroma hctColor - 40),
                              tone = (if isDark then 10 else 99)\<rparr>
           in objectLiteral
             [(''primary'', Inr primary),
              (''onPrimary'', Inr (M3HCTColor_getAccessibleTextColor primary)),
              (''primaryContainer'', Inr primaryContainer),
              (''onPrimaryContainer'', Inr (M3HCTColor_getAccessibleTextColor primaryContainer)),
              (''secondary'', toHex secondaryAdjusted),
              (''onSecondary'', textColorOf secondaryAdjusted),
              (''secondaryContainer'', toHex (adjustTone secondaryAdjusted 10)),
              (''onSecondaryContainer'', textColorOf (adjustTone secondaryAdjusted 10)),
              (''tertiary'', toHex tertiaryAdjusted),
              (''onTertiary'', textColorOf tertiaryAdjusted),
              (''tertiaryContainer'', toHex (adjustTone tertiaryAdjusted 10)),
              (''onTertiaryContainer'', textColorOf (adjustTone tertiaryAdjusted 10)),
              (''surface'', toHex surfaceHct),
              (''surfaceDim'', toHex (adjustTone surfaceHct (if isDark then - 4 else - 12))),
              (''surfaceBright'', toHex (adjustTone surfaceHct (if isDark then 14 else 4))),
              (''surfaceContainerLowest'', toHex (adjustTone surfaceHct (if isDark then 0 else 5))),
              (''surfaceContainerLow'', toHex (adjustTone surfaceHct (if isDark then 4 else 8))),
              (''surfaceContainer'', toHex (adjustTone surfaceHct (if isDark then 6 else 12))),
              (''surfaceContainerHigh'', toHex (adjustTone surfaceHct (if isDark then 8 else 16))),
              (''surfaceContainerHighest'', toHex (adjustTone surfaceHct (if isDark then 12 else 22))),
              (''onSurface'', textColorOf surfaceHct),
              (''onSurfaceVariant'', toHex (adjustTone surfaceHct (if isDark then 70 else 30))),
              (''outline'', toHex (adjustTone hctColor (if isDark then 60 else 50))),
              (''outlineVariant'', toHex (adjustTone hctColor (if isDark then 30 else 80))),
              (''error'', Inr (if isDark then ''#F2B8B5'' else ''#BA1A1A'')),
              (''onError'', Inr (if isDark then ''#601410'' else ''#FFFFFF'')),
              (''errorContainer'', Inr (if isDark then ''#8C1D18'' else ''#FFDAD6'')),
              (''onErrorContainer'', Inr (if isDark then ''#F9DEDC'' else ''#410002''))])))"

subsection \<open>A call in its surroundings\<close>

text \<open>
  What a call could read or write besides its arguments: the clock behind \<open>Date.now()\<close>, the
  values that successive calls of \<open>Math.random()\<close> return, and the global variables and
  storage.  The body of \<open>generateSchemeFromColor\<close> and the methods it calls (\<open>fromHex\<close>,
  \<open>hexToRgb\<close>, \<open>rgbToHct\<close>, \<open>toHex\<close>, \<open>toRgb\<close>, \<open>adjustHue\<close>, \<open>adjustTone\<close>,
  \<open>getAccessibleTextColor\<close>, \<open>contrastRatio\<close>, \<open>relativeLuminance\<close>) name none of them and
  assign to local constants only: a call hands back the outcome computed from its two
  arguments, and the surroundings as it found them.
\<close>

record ambient =
  dateNow :: nat
  mathRandom :: "nat \<Rightarrow> real"
  globals :: "string \<Rightarrow> string option"

definition callGenerateSchemeFromColor ::
    "ambient \<Rightarrow> string \<Rightarrow> bool \<Rightarrow> (error + (string \<times> string) list) \<times> ambient" where
  "callGenerateSchemeFromColor env primaryColor isDark =
     (generateSchemeFromColor primaryColor isDark, env)"

section \<open>WallpaperColorExtractor\<close>

subsection \<open>\<open>extractColorsFromPixels\<close>\<close>

text \<open>
  \<open>pixels\<close> is a \<open>Uint8ClampedArray\<close>: a flat list of bytes, four to a pixel.  A read beyond
  its end gives \<open>undefined\<close>, here \<open>None\<close>.  \<open>Math.floor(c / 16) * 16\<close> of \<open>undefined\<close> is \<open>NaN\<close>.
\<close>

definition quantize :: "nat option \<Rightarrow> number" where
  "quantize c = (case c of None \<Rightarrow> NaN | Some v \<Rightarrow> Num (int (v div 16) * 16))"

text \<open>
  The key \<open>`${quantizedR},${quantizedG},${quantizedB}`\<close> is kept as the triple that
  \<open>colorKey.split(',').map(Number)\<close> reads back from it.  The \<open>Map\<close> is a list of entries in
  insertion order; \<open>colorMap.set(key, (colorMap.get(key) || 0) + 1)\<close> keeps the place of a key
  that is present and appends one that is new.
\<close>

type_synonym colorKey = "number \<times> number \<times> number"

fun countColor :: "colorKey \<Rightarrow> (colorKey \<times> nat) list \<Rightarrow> (colorKey \<times> nat) list" where
  "countColor k [] = [(k, 1)]"
| "countColor k ((k', n) # m) = (if k = k' then (k', n + 1) # m else (k', n) # countColor k m)"

text \<open>
  The loop \<open>for (i = 0; i < pixels.length; i += 4)\<close>.  A pixel whose alpha is below 128 is
  skipped; in a trailing group of fewer than four bytes the alpha is \<open>undefined\<close>, the test
  \<open>undefined < 128\<close> is false and the group is counted.
\<close>

fun buildColorMap :: "nat list \<Rightarrow> (colorKey \<times> nat) list \<Rightarrow> (colorKey \<times> nat) list" where
  "buildColorMap [] m = m"
| "buildColorMap [pr] m = countColor (quantize (Some pr), quantize None, quantize None) m"
| "buildColorMap [pr, pg] m = countColor (quantize (Some pr), quantize (Some pg), quantize None) m"
| "buildColorMap [pr, pg, pb] m =
     countColor (quantize (Some pr), quantize (Some pg), quantize (Some pb)) m"
| "buildColorMap (pr # pg # pb # pa # rest) m =
     (if pa < 128 then buildColorMap rest m
      else buildColorMap rest
             (countColor (quantize (Some pr), quantize (Some pg), quantize (Some pb)) m))"

text \<open>\<open>.sort((a, b) => b[1] - a[1])\<close>: a stable sort, the larger count first.\<close>

definition sortByCount :: "(colorKey \<times> nat) list \<Rightarrow> (colorKey \<times> nat) list" where
  "sortByCount entries = sort_key (\<lambda>(k, n). - int n) entries"

text \<open>\<open>xs.slice(0, e)\<close>: a negative \<open>e\<close> counts from the end of the list.\<close>

definition slice0 :: "'a list \<Rightarrow> int \<Rightarrow> 'a list" where
  "slice0 xs e = (if e < 0 then take (nat (int (length xs) + e)) xs else take (nat e) xs)"

text \<open>
  The loop over the sorted candidates: a candidate is kept when its contrast with every
  colour kept so far exceeds 1.5, and the loop breaks once \<open>colorCount\<close> colours are kept.
\<close>

fun distinctLoop :: "(colorKey \<times> nat) list \<Rightarrow> int \<Rightarrow> string list \<Rightarrow> string list" where
  "distinctLoop [] colorCount distinctColors = distinctColors"
| "distinctLoop (((cr, cg, cb), n) # rest) colorCount distinctColors =
     (let hexColor = M3HCTColor_rgbToHex cr cg cb;
          isDistinct = list_all (\<lambda>existingColor.
                         M3HCTColor_contrastRatio hexColor existingColor > 1.5) distinctColors
      in if isDistinct
         then (if int (length (distinctColors @ [hexColor])) \<ge> colorCount
               then distinctColors @ [hexColor]
               else distinctLoop rest colorCount (distinctColors @ [hexColor]))
         else distinctLoop rest colorCount distinctColors)"

definition extractColorsFromPixels :: "nat list \<Rightarrow> int \<Rightarrow> string list" where
  "extractColorsFromPixels pixels colorCount =
     (let colorMap = buildColorMap pixels [];
          sortedColors = slice0 (sortByCount colorMap) (colorCount * 2)
      in distinctLoop sortedColors colorCount [])"

text \<open>
  The pixels of the spec: the alpha values of a sequence of whole RGBA pixels, and the
  condition that every one is below 128.
\<close>

fun alphas :: "nat list \<Rightarrow> nat list" where
  "alphas (pr # pg # pb # pa # rest) = pa # alphas rest"
| "alphas _ = []"

definition allTransparent :: "nat list \<Rightarrow> bool" where
  "allTransparent pixels = list_all (\<lambda>a. a < 128) (alphas pixels)"

subsection \<open>\<open>extractPrimaryColor\<close>\<close>

text \<open>
  The quotient \<open>(maxComponent - minComponent) / maxComponent\<close> of two integers as a double:
  a zero divisor gives \<open>NaN\<close> for \<open>0 / 0\<close> and an infinity otherwise.  A comparison with
  \<open>NaN\<close> is false.
\<close>

datatype quotient = Finite real | PlusInfinity | MinusInfinity | NotANumber

definition jsDivide :: "int \<Rightarrow> int \<Rightarrow> quotient" where
  "jsDivide x y =
     (if y \<noteq> 0 then Finite (real_of_int x / real_of_int y)
      else if x = 0 then NotANumber
      else if x > 0 then PlusInfinity
      else MinusInfinity)"

fun exceeds :: "quotient \<Rightarrow> real \<Rightarrow> bool" where
  "exceeds (Finite v) c = (v > c)"
| "exceeds PlusInfinity c = True"
| "exceeds MinusInfinity c = False"
| "exceeds NotANumber c = False"

fun isBelow :: "quotient \<Rightarrow> real \<Rightarrow> bool" where
  "isBelow (Finite v) c = (v < c)"
| "isBelow PlusInfinity c = False"
| "isBelow MinusInfinity c = True"
| "isBelow NotANumber c = False"

definition saturationOf :: "RGB \<Rightarrow> quotient" where
  "saturationOf rgb =
     (let maxComponent = max (max (r rgb) (g rgb)) (b rgb);
          minComponent = min (min (r rgb) (g rgb)) (b rgb)
      in jsDivide (maxComponent - minComponent) maxComponent)"

definition saturationBonus :: "quotient \<Rightarrow> int" where
  "saturationBonus saturation =
     (if exceeds saturation 0.3 \<and> isBelow saturation 0.8 then 20 else 0)"

text \<open>The score of one candidate: the callback of \<open>colors.map\<close>.\<close>

definition scoreColor :: "string \<Rightarrow> int" where
  "scoreColor color =
     (let hct = fromHex color;
          rgb = M3HCTColor_hexToRgb color;
          s1 = (if chroma hct > 20 \<and> chroma hct < 60 then 30 else 0);
          s2 = s1 + (if tone hct > 30 \<and> tone hct < 70 then 30 else 0);
          s3 = s2 + saturationBonus (saturationOf rgb);
          s4 = s3 - (if \<bar>r rgb - g rgb\<bar> < 30 \<and> \<bar>g rgb - b rgb\<bar> < 30 then 50 else 0);
          s5 = s4 - (if tone hct < 10 \<or> tone hct > 90 then 30 else 0)
      in s5)"

text \<open>
  \<open>scoredColors.sort((a, b) => b.score - a.score)\<close> is a stable sort, the larger score
  first; \<open>scoredColors[0].color\<close> would raise a \<open>TypeError\<close> on an empty array.
\<close>

definition extractPrimaryColor :: "string list \<Rightarrow> error + string" where
  "extractPrimaryColor colors =
     (if length colors = 0 then Inr ''#6750A4''
      else (let scoredColors = map (\<lambda>color. (color, scoreColor color)) colors;
                sorted = sort_key (\<lambda>(color, score). - score) scoredColors
            in case sorted of
                 [] \<Rightarrow> Inl TypeError
               | (color, score) # rest \<Rightarrow> Inr color))"

text \<open>
  The distinctness that the filter is to establish: every colour of the result has a contrast
  above 1.5 with every colour before it.  The list is read from its last element.
\<close>

fun distinctFromEarlier :: "string list \<Rightarrow> bool" where
  "distinctFromEarlier [] = True"
| "distinctFromEarlier (c # earlier) =
     (list_all (\<lambda>e. M3HCTColor_contrastRatio c e > 1.5) earlier \<and> distinctFromEarlier earlier)"

definition distinctEnough :: "string list \<Rightarrow> bool" where
  "distinctEnough colors = distinctFromEarlier (rev colors)"

section \<open>Properties of the codec\<close>

subsection \<open>The regular expression accepts exactly the well-formed strings\<close>

lemma groups3_None_class: "(groups3 s = None) = (\<not> (length s = 6 \<and> list_all hexClass s))"
  by (cases s rule: groups3.cases) auto

lemma hexClass_isHexDigit: "hexClass c = isHexDigit c"
  by (auto simp: hexClass_def isHexDigit_def)

lemma groups3_None_iff: "(groups3 s = None) = (\<not> sixHexDigits s)"
  by (simp add: groups3_None_class sixHexDigits_def hexClass_isHexDigit [abs_def])

lemma hexRegExp_exec_None_iff: "(hexRegExp_exec hex = None) = (\<not> wellFormedHex hex)"
proof (cases hex)
  case Nil
  then show ?thesis
    by (simp add: hexRegExp_exec_def wellFormedHex_def sixHexDigits_def)
next
  case (Cons c rest)
  show ?thesis
  proof (cases "c = CHR ''#''")
    case True
    have "\<not> sixHexDigits hex"
      using Cons True by (simp add: sixHexDigits_def isHexDigit_def)
    then have "groups3 hex = None"
      by (simp add: groups3_None_iff)
    then show ?thesis
      using Cons True \<open>\<not> sixHexDigits hex\<close> groups3_None_iff [of rest]
      by (cases "groups3 rest") (simp_all add: hexRegExp_exec_def wellFormedHex_def)
  next
    case False
    then show ?thesis
      using Cons groups3_None_iff [of hex]
      by (simp add: hexRegExp_exec_def wellFormedHex_def)
  qed
qed

text \<open>
  Claim C1, as the code has it: for every input string that is not six hex digits with an
  optional leading \<open>#\<close>, \<open>M3ColorUtils.hexToRgb\<close> returns \<open>null\<close> and
  \<open>M3HCTColor.hexToRgb\<close> returns the default \<open>{r: 0, g: 0, b: 0}\<close>; neither raises an
  error.
\<close>

theorem hexToRgb_malformed:
  assumes "\<not> wellFormedHex hex"
  shows "M3ColorUtils_hexToRgb hex = None \<and> M3HCTColor_hexToRgb hex = \<lparr>r = 0, g = 0, b = 0\<rparr>"
  using assms by (simp add: hexRegExp_exec_None_iff [symmetric] M3ColorUtils_hexToRgb_def M3HCTColor_hexToRgb_def)

theorem hexToRgb_malformed_witness:
  "\<not> wellFormedHex ''#12345'' \<and> M3ColorUtils_hexToRgb ''#12345'' = None
     \<and> M3HCTColor_hexToRgb ''#12345'' = \<lparr>r = 0, g = 0, b = 0\<rparr>"
proof -
  have h: "\<not> wellFormedHex ''#12345''"
    by (simp add: wellFormedHex_def sixHexDigits_def isHexDigit_def)
  from hexToRgb_malformed [OF h] h show ?thesis by simp
qed

text \<open>
  The claim as the spec states it asks for an \<open>InvalidColorFormat\<close> failure and forbids a
  silent default.  On the malformed input \<open>#GGHHII\<close> the codec of \<open>M3HCTColor\<close> returns
  the default black, and the codec of \<open>M3ColorUtils\<close> returns \<open>null\<close>.
\<close>

theorem hexToRgb_default_counterexample:
  "\<not> wellFormedHex ''#GGHHII'' \<and> M3HCTColor_hexToRgb ''#GGHHII'' = \<lparr>r = 0, g = 0, b = 0\<rparr>
     \<and> M3ColorUtils_hexToRgb ''#GGHHII'' = None"
  by (simp add: wellFormedHex_def sixHexDigits_def isHexDigit_def M3HCTColor_hexToRgb_def
      M3ColorUtils_hexToRgb_def hexRegExp_exec_def hexClass_def)

subsection \<open>Formatting a channel\<close>

lemma nat_less_16_cases:
  assumes "d < (16::nat)"
  shows "d = 0 \<or> d = 1 \<or> d = 2 \<or> d = 3 \<or> d = 4 \<or> d = 5 \<or> d = 6 \<or> d = 7 \<or> d = 8 \<or> d = 9
     \<or> d = 10 \<or> d = 11 \<or> d = 12 \<or> d = 13 \<or> d = 14 \<or> d = 15"
  using assms by arith


lemma toUpper_hexDigitChar: "d < 16 \<Longrightarrow> toUpperChar (hexDigitChar d) = upperDigit d"
  by (drule nat_less_16_cases, elim disjE) (simp_all add: toUpperChar_def hexDigitChar_def upperDigit_def)

lemma upperDigit_props: "d < 16 \<Longrightarrow> isUpperHexDigit (upperDigit d) \<and> hexClass (upperDigit d) \<and> hexDigitValue (upperDigit d) = int d"
  by (drule nat_less_16_cases, elim disjE) (simp_all add: isUpperHexDigit_def hexClass_def hexDigitValue_def upperDigit_def)

lemma toString16_nat_byte:
  assumes "n < 256"
  shows "toString16_nat n = (if n < 16 then [hexDigitChar n] else [hexDigitChar (n div 16), hexDigitChar (n mod 16)])"
proof -
  have "n div 16 < 16" using assms by simp
  then show ?thesis
    by (simp add: toString16_nat.simps [of n] toString16_nat.simps [of "n div 16"])
qed

lemma channelHex_byte_digits:
  assumes "0 \<le> x" "x \<le> 255"
  shows "toUpperCase (channelHex (Num x)) = [upperDigit (nat x div 16), upperDigit (nat x mod 16)]"
proof -
  have n: "nat x < 256" using assms by simp
  have d: "nat x div 16 < 16" using n by simp
  have m: "nat x mod 16 < 16" by simp
  show ?thesis
  proof (cases "nat x < 16")
    case True
    then have "nat x div 16 = 0" "nat x mod 16 = nat x" by simp_all
    with True assms n show ?thesis
      by (simp add: channelHex_def toString16_nat_byte toUpperCase_def toUpper_hexDigitChar)
        (simp add: toUpperChar_def upperDigit_def)
  next
    case False
    with assms n d m show ?thesis
      by (simp add: channelHex_def toString16_nat_byte toUpperCase_def toUpper_hexDigitChar)
  qed
qed

lemma channelHex_byte:
  "0 \<le> x \<Longrightarrow> x \<le> 255 \<Longrightarrow> toUpperCase (channelHex (Num x)) = twoUpperHexDigits x"
  by (simp add: channelHex_byte_digits twoUpperHexDigits_def)

lemma toUpperCase_append: "toUpperCase (xs @ ys) = toUpperCase xs @ toUpperCase ys"
  by (simp add: toUpperCase_def)

lemma rgbToHex_bytes:
  assumes "0 \<le> cr" "cr \<le> 255" "0 \<le> cg" "cg \<le> 255" "0 \<le> cb" "cb \<le> 255"
  shows "M3ColorUtils_rgbToHex (Num cr) (Num cg) (Num cb)
           = ''#'' @ twoUpperHexDigits cr @ twoUpperHexDigits cg @ twoUpperHexDigits cb"
    and "M3HCTColor_rgbToHex (Num cr) (Num cg) (Num cb)
           = ''#'' @ twoUpperHexDigits cr @ twoUpperHexDigits cg @ twoUpperHexDigits cb"
  using assms
  by (simp_all add: M3ColorUtils_rgbToHex_def M3HCTColor_rgbToHex_def toUpperCase_append channelHex_byte)

lemma twoUpperHexDigits_upper:
  assumes "0 \<le> x" "x \<le> 255"
  shows "list_all isUpperHexDigit (twoUpperHexDigits x)"
proof -
  have "nat x div 16 < 16" "nat x mod 16 < 16" using assms by simp_all
  then show ?thesis
    by (simp add: twoUpperHexDigits_def upperDigit_props)
qed

lemma length_twoUpperHexDigits: "length (twoUpperHexDigits x) = 2"
  by (simp add: twoUpperHexDigits_def)

text \<open>
  Claim C2, as the code has it: for integer channels in \<open>[0, 255]\<close>, \<open>rgbToHex\<close> (the same
  in both namespaces) is \<open>#\<close> followed by the two upper-case hex digits of each channel, a
  string of seven characters.  Nothing is clamped.
\<close>

theorem rgbToHex_in_range:
  assumes "0 \<le> cr" "cr \<le> 255" "0 \<le> cg" "cg \<le> 255" "0 \<le> cb" "cb \<le> 255"
  shows "M3ColorUtils_rgbToHex (Num cr) (Num cg) (Num cb)
           = ''#'' @ twoUpperHexDigits cr @ twoUpperHexDigits cg @ twoUpperHexDigits cb
       \<and> M3HCTColor_rgbToHex (Num cr) (Num cg) (Num cb) = M3ColorUtils_rgbToHex (Num cr) (Num cg) (Num cb)
       \<and> canonicalHex (M3ColorUtils_rgbToHex (Num cr) (Num cg) (Num cb))"
  using assms
  by (simp add: rgbToHex_bytes canonicalHex_def length_twoUpperHexDigits twoUpperHexDigits_upper)

theorem rgbToHex_in_range_witness:
  "M3ColorUtils_rgbToHex (Num 103) (Num 80) (Num 164) = ''#6750A4''
     \<and> M3HCTColor_rgbToHex (Num 103) (Num 80) (Num 164) = ''#6750A4''
     \<and> canonicalHex (M3ColorUtils_rgbToHex (Num 103) (Num 80) (Num 164))"
  using rgbToHex_in_range [of 103 80 164]
  by (auto simp: twoUpperHexDigits_def upperDigit_def)

text \<open>
  The claim as the spec states it has every channel clamped to \<open>[0, 255]\<close> and a result of
  seven characters.  For the channel 256 the source prints \<open>100\<close>: the result has eight
  characters, where clamping would give \<open>#FF0000\<close>.
\<close>

theorem rgbToHex_no_clamp_counterexample:
  "M3ColorUtils_rgbToHex (Num 256) (Num 0) (Num 0) = ''#1000000''
     \<and> M3HCTColor_rgbToHex (Num 256) (Num 0) (Num 0) = ''#1000000''
     \<and> length ''#1000000'' = 8"
  by (simp add: M3ColorUtils_rgbToHex_def M3HCTColor_rgbToHex_def channelHex_def toUpperCase_def
      toUpperChar_def toString16_nat.simps hexDigitChar_def)

subsection \<open>The round trip\<close>

lemma parseInt16_twoUpperHexDigits:
  assumes "0 \<le> x" "x \<le> 255"
  shows "parseInt16 (twoUpperHexDigits x) = x"
proof -
  have d: "nat x div 16 < 16" and m: "nat x mod 16 < 16" using assms by simp_all
  have "parseInt16 (twoUpperHexDigits x) = 16 * int (nat x div 16) + int (nat x mod 16)"
    using d m by (simp add: parseInt16_def twoUpperHexDigits_def upperDigit_props)
  also have "\<dots> = int (nat x)"
    by (simp add: zdiv_int zmod_int)
  finally show ?thesis using assms by simp
qed

lemma hexRegExp_exec_canonical:
  assumes "0 \<le> cr" "cr \<le> 255" "0 \<le> cg" "cg \<le> 255" "0 \<le> cb" "cb \<le> 255"
  shows "hexRegExp_exec (''#'' @ twoUpperHexDigits cr @ twoUpperHexDigits cg @ twoUpperHexDigits cb)
           = Some (twoUpperHexDigits cr, twoUpperHexDigits cg, twoUpperHexDigits cb)"
proof -
  have "nat cr div 16 < 16" "nat cr mod 16 < 16" "nat cg div 16 < 16" "nat cg mod 16 < 16"
    "nat cb div 16 < 16" "nat cb mod 16 < 16"
    using assms by simp_all
  then show ?thesis
    by (simp add: hexRegExp_exec_def twoUpperHexDigits_def upperDigit_props)
qed

lemma hexToRgb_rgbToHex_bytes:
  assumes "0 \<le> cr" "cr \<le> 255" "0 \<le> cg" "cg \<le> 255" "0 \<le> cb" "cb \<le> 255"
  shows "M3ColorUtils_hexToRgb (M3ColorUtils_rgbToHex (Num cr) (Num cg) (Num cb))
           = Some \<lparr>r = cr, g = cg, b = cb\<rparr>"
    and "M3HCTColor_hexToRgb (M3HCTColor_rgbToHex (Num cr) (Num cg) (Num cb))
           = \<lparr>r = cr, g = cg, b = cb\<rparr>"
  using assms
  by (simp_all add: rgbToHex_bytes M3ColorUtils_hexToRgb_def M3HCTColor_hexToRgb_def
      hexRegExp_exec_canonical parseInt16_twoUpperHexDigits del: append.simps)

text \<open>
  Claim C7: for all integers \<open>r\<close>, \<open>g\<close>, \<open>b\<close> in \<open>[0, 255]\<close>,
  \<open>hexToRgb(rgbToHex(r, g, b))\<close> is \<open>{r, g, b}\<close>, in \<open>M3ColorUtils\<close> and in \<open>M3HCTColor\<close>.
\<close>

theorem hex_roundtrip:
  assumes "0 \<le> cr" "cr \<le> 255" "0 \<le> cg" "cg \<le> 255" "0 \<le> cb" "cb \<le> 255"
  shows "M3ColorUtils_hexToRgb (M3ColorUtils_rgbToHex (Num cr) (Num cg) (Num cb))
           = Some \<lparr>r = cr, g = cg, b = cb\<rparr>
       \<and> M3HCTColor_hexToRgb (M3HCTColor_rgbToHex (Num cr) (Num cg) (Num cb))
           = \<lparr>r = cr, g = cg, b = cb\<rparr>"
  using assms by (simp add: hexToRgb_rgbToHex_bytes)

theorem hex_roundtrip_witness:
  "M3ColorUtils_hexToRgb (M3ColorUtils_rgbToHex (Num 255) (Num 0) (Num 10))
           = Some \<lparr>r = 255, g = 0, b = 10\<rparr>
       \<and> M3HCTColor_hexToRgb (M3HCTColor_rgbToHex (Num 255) (Num 0) (Num 10))
           = \<lparr>r = 255, g = 0, b = 10\<rparr>"
  using hex_roundtrip [of 255 0 10] by simp


section \<open>Properties of the colour space helpers\<close>

lemma jsRemainder_nonneg:
  assumes "0 \<le> n" "0 < d"
  shows "0 \<le> jsRemainder n d \<and> jsRemainder n d < d"
proof -
  let ?q = "\<lfloor>n / d\<rfloor>"
  have q1: "real_of_int ?q \<le> n / d" by (rule of_int_floor_le)
  have q2: "n / d < real_of_int ?q + 1" by linarith
  have "d * real_of_int ?q \<le> d * (n / d)"
    using q1 assms by (intro mult_left_mono) simp_all
  then have lo: "d * real_of_int ?q \<le> n"
    using assms by simp
  have "d * (n / d) < d * (real_of_int ?q + 1)"
    using q2 assms by (intro mult_strict_left_mono) simp_all
  then have hi: "n < d * (real_of_int ?q + 1)"
    using assms by simp
  have "jsRemainder n d = sgn n * (n - d * real_of_int ?q)"
    using assms by (simp add: jsRemainder_def)
  moreover have "0 \<le> n - d * real_of_int ?q" "n - d * real_of_int ?q < d"
    using lo hi by (simp_all add: algebra_simps)
  ultimately show ?thesis
    using assms by (cases "n = 0") (simp_all add: sgn_if)
qed

lemma adjustHue_invariant:
  assumes "hctInvariant c" "0 \<le> hue c + delta"
  shows "hctInvariant (adjustHue c delta)"
  using assms jsRemainder_nonneg [of "hue c + delta" 360]
  by (simp add: hctInvariant_def adjustHue_def)

lemma adjustChroma_invariant:
  assumes "hctInvariant c"
  shows "hctInvariant (adjustChroma c delta)"
  using assms by (simp add: hctInvariant_def adjustChroma_def)

lemma adjustTone_invariant:
  assumes "hctInvariant c"
  shows "hctInvariant (adjustTone c delta)"
  using assms by (simp add: hctInvariant_def adjustTone_def)

text \<open>
  Claim C5 asks that \<open>adjustHue\<close> wraps the hue back into \<open>[0, 360)\<close> for every delta,
  positive or negative.  The three lemmas above give what holds: \<open>adjustChroma\<close> and
  \<open>adjustTone\<close> keep the invariants for every delta, \<open>adjustHue\<close> when \<open>hue + delta\<close> is
  not negative.  For a negative sum the remainder \<open>%\<close> keeps the sign of the dividend:
  from the hue 10, the delta \<open>-20\<close> gives the hue \<open>-10\<close>.
\<close>

theorem adjustHue_negative_sum:
  "hctInvariant \<lparr>hue = 10, chroma = 50, tone = 50\<rparr>
     \<and> adjustHue \<lparr>hue = 10, chroma = 50, tone = 50\<rparr> (- 20) = \<lparr>hue = - 10, chroma = 50, tone = 50\<rparr>
     \<and> \<not> hctInvariant (adjustHue \<lparr>hue = 10, chroma = 50, tone = 50\<rparr> (- 20))"
  by (simp add: hctInvariant_def adjustHue_def jsRemainder_def)

section \<open>Properties of the scheme generator\<close>

text \<open>
  \<open>rgbToHex\<close> is declared \<open>static\<close>: the lookup \<open>this.rgbToHex\<close> in \<open>toHex\<close> finds nothing on
  the instance, and the call raises.
\<close>

lemma rgbToHex_not_on_instance: "\<not> instanceHas ''rgbToHex'' \<and> ''rgbToHex'' \<in> set M3HCTColor_static"
  by (simp add: instanceHas_def instanceOwn_def M3HCTColor_prototype_def Object_prototype_def
      M3HCTColor_static_def)

lemma toHex_TypeError: "toHex c = Inl TypeError"
  by (simp add: toHex_def rgbToHex_not_on_instance)

text \<open>
  Claim C3 asks that \<open>generateSchemeFromColor("#6750A4", false)\<close> returns a mapping with
  every role of the spec, whose \<open>primary\<close> is \<open>#6750A4\<close>.  The first statement that needs a
  hex string, \<open>const primary = hctColor.toHex()\<close>, raises the \<open>TypeError\<close>: no mapping is
  returned.
\<close>

theorem generateSchemeFromColor_seed_TypeError:
  "generateSchemeFromColor ''#6750A4'' False = Inl TypeError"
  by (simp add: generateSchemeFromColor_def Let_def bindE_def toHex_TypeError)

text \<open>For every seed and either mode the call raises the \<open>TypeError\<close> of \<open>toHex\<close>.\<close>

lemma generateSchemeFromColor_always_TypeError:
  "generateSchemeFromColor primaryColor isDark = Inl TypeError"
  by (simp add: generateSchemeFromColor_def Let_def bindE_def toHex_TypeError)



text \<open>
  The common outcome of the two calls is the \<open>TypeError\<close> above, for every seed: the outcomes
  that agree are errors, and no call returns a mapping.
\<close>

lemma callGenerateSchemeFromColor_outcome:
  "fst (callGenerateSchemeFromColor env seed isDark) = Inl TypeError"
  by (simp add: callGenerateSchemeFromColor_def generateSchemeFromColor_always_TypeError)

section \<open>Properties of the text colour\<close>

subsection \<open>The two codecs and the two luminances agree\<close>

lemma M3ColorUtils_hexToRgb_eq:
  "M3ColorUtils_hexToRgb x = (if wellFormedHex x then Some (M3HCTColor_hexToRgb x) else None)"
proof (cases "hexRegExp_exec x")
  case None
  then have "\<not> wellFormedHex x"
    by (simp add: hexRegExp_exec_None_iff)
  with None show ?thesis
    by (simp add: M3ColorUtils_hexToRgb_def)
next
  case (Some res)
  then have "wellFormedHex x"
    using hexRegExp_exec_None_iff [of x] by simp
  with Some show ?thesis
    by (simp add: M3ColorUtils_hexToRgb_def M3HCTColor_hexToRgb_def split: prod.split)
qed

lemma calculateLuminance_eq: "calculateLuminance cr cg cb = relativeLuminance cr cg cb"
  by (simp add: calculateLuminance_def relativeLuminance_def)

lemma M3ColorUtils_getAccessibleTextColor_eq:
  "M3ColorUtils_getAccessibleTextColor x
     = (if wellFormedHex x
        then (if relativeLuminance (r (M3HCTColor_hexToRgb x)) (g (M3HCTColor_hexToRgb x))
                   (b (M3HCTColor_hexToRgb x)) > 0.5
              then ''#000000'' else ''#FFFFFF'')
        else ''#000000'')"
  by (simp add: M3ColorUtils_getAccessibleTextColor_def M3ColorUtils_hexToRgb_eq
      calculateLuminance_eq Let_def)

text \<open>
  Claim C4, as the code has it.  For every string \<open>x\<close>,
  \<open>M3HCTColor.getAccessibleTextColor(x)\<close> is \<open>#000000\<close> if the contrast of \<open>x\<close> with black is at
  least 4.5, else \<open>#FFFFFF\<close> if the contrast with white is at least 4.5, else \<open>#000000\<close> when
  the relative luminance exceeds 0.5 and \<open>#FFFFFF\<close> otherwise.
  \<open>M3ColorUtils.getAccessibleTextColor(x)\<close> has no contrast test: for a well-formed \<open>x\<close> it is
  \<open>#000000\<close> when the relative luminance exceeds 0.5 and \<open>#FFFFFF\<close> otherwise, and for any
  other string it is \<open>#000000\<close>.  Either function returns one of \<open>#000000\<close> and \<open>#FFFFFF\<close>.
\<close>

theorem getAccessibleTextColor_rule:
  "M3HCTColor_getAccessibleTextColor x
     = accessibleTextColorRule (M3HCTColor_contrastRatio x ''#000000'')
         (M3HCTColor_contrastRatio x ''#FFFFFF'')
         (relativeLuminance (r (M3HCTColor_hexToRgb x)) (g (M3HCTColor_hexToRgb x))
            (b (M3HCTColor_hexToRgb x)))
   \<and> (M3HCTColor_getAccessibleTextColor x = ''#000000''
        \<or> M3HCTColor_getAccessibleTextColor x = ''#FFFFFF'')
   \<and> (M3ColorUtils_getAccessibleTextColor x = ''#000000''
        \<or> M3ColorUtils_getAccessibleTextColor x = ''#FFFFFF'')
   \<and> (wellFormedHex x \<longrightarrow>
        M3ColorUtils_getAccessibleTextColor x
          = (if relativeLuminance (r (M3HCTColor_hexToRgb x)) (g (M3HCTColor_hexToRgb x))
                  (b (M3HCTColor_hexToRgb x)) > 0.5
             then ''#000000'' else ''#FFFFFF''))
   \<and> (\<not> wellFormedHex x \<longrightarrow> M3ColorUtils_getAccessibleTextColor x = ''#000000'')"
proof (intro conjI impI)
  show "M3HCTColor_getAccessibleTextColor x
     = accessibleTextColorRule (M3HCTColor_contrastRatio x ''#000000'')
         (M3HCTColor_contrastRatio x ''#FFFFFF'')
         (relativeLuminance (r (M3HCTColor_hexToRgb x)) (g (M3HCTColor_hexToRgb x))
            (b (M3HCTColor_hexToRgb x)))"
    by (simp add: M3HCTColor_getAccessibleTextColor_def accessibleTextColorRule_def Let_def)
  show "M3HCTColor_getAccessibleTextColor x = ''#000000''
        \<or> M3HCTColor_getAccessibleTextColor x = ''#FFFFFF''"
    by (simp add: M3HCTColor_getAccessibleTextColor_def Let_def)
  show "M3ColorUtils_getAccessibleTextColor x = ''#000000''
        \<or> M3ColorUtils_getAccessibleTextColor x = ''#FFFFFF''"
    by (simp add: M3ColorUtils_getAccessibleTextColor_eq)
next
  assume "wellFormedHex x"
  then show "M3ColorUtils_getAccessibleTextColor x
          = (if relativeLuminance (r (M3HCTColor_hexToRgb x)) (g (M3HCTColor_hexToRgb x))
                  (b (M3HCTColor_hexToRgb x)) > 0.5
             then ''#000000'' else ''#FFFFFF'')"
    by (simp add: M3ColorUtils_getAccessibleTextColor_eq)
next
  assume "\<not> wellFormedHex x"
  then show "M3ColorUtils_getAccessibleTextColor x = ''#000000''"
    by (simp add: M3ColorUtils_getAccessibleTextColor_eq)
qed

subsection \<open>Values at black, white and red\<close>

lemma hexToRgb_black: "M3HCTColor_hexToRgb ''#000000'' = \<lparr>r = 0, g = 0, b = 0\<rparr>"
  by (simp add: M3HCTColor_hexToRgb_def hexRegExp_exec_def hexClass_def parseInt16_def hexDigitValue_def)

lemma hexToRgb_white: "M3HCTColor_hexToRgb ''#FFFFFF'' = \<lparr>r = 255, g = 255, b = 255\<rparr>"
  by (simp add: M3HCTColor_hexToRgb_def hexRegExp_exec_def hexClass_def parseInt16_def hexDigitValue_def)

lemma hexToRgb_red: "M3HCTColor_hexToRgb ''#FF0000'' = \<lparr>r = 255, g = 0, b = 0\<rparr>"
  by (simp add: M3HCTColor_hexToRgb_def hexRegExp_exec_def hexClass_def parseInt16_def hexDigitValue_def)

lemma wellFormedHex_values:
  "wellFormedHex ''#000000''" "wellFormedHex ''#FFFFFF''" "wellFormedHex ''#FF0000''"
  "\<not> wellFormedHex ''red''"
  by (simp_all add: wellFormedHex_def sixHexDigits_def isHexDigit_def)

lemma luminance_values:
  "relativeLuminance 0 0 0 = 0" "relativeLuminance 255 255 255 = 1" "relativeLuminance 255 0 0 = 0.2126"
  by (simp_all add: relativeLuminance_def linearChannel_def)

text \<open>
  The scenarios of the spec, white text on black and black text on white, in both namespaces;
  and a string that is no colour.
\<close>

theorem getAccessibleTextColor_rule_witness:
  "M3HCTColor_getAccessibleTextColor ''#000000'' = ''#FFFFFF''
   \<and> M3HCTColor_getAccessibleTextColor ''#FFFFFF'' = ''#000000''
   \<and> wellFormedHex ''#000000'' \<and> M3ColorUtils_getAccessibleTextColor ''#000000'' = ''#FFFFFF''
   \<and> wellFormedHex ''#FFFFFF'' \<and> M3ColorUtils_getAccessibleTextColor ''#FFFFFF'' = ''#000000''
   \<and> \<not> wellFormedHex ''red'' \<and> M3ColorUtils_getAccessibleTextColor ''red'' = ''#000000''"
  using getAccessibleTextColor_rule [of "''#000000''"] getAccessibleTextColor_rule [of "''#FFFFFF''"]
    getAccessibleTextColor_rule [of "''red''"]
  by (simp add: accessibleTextColorRule_def M3HCTColor_contrastRatio_def hexToRgb_black
      hexToRgb_white luminance_values wellFormedHex_values)

text \<open>
  The claim as the spec states it, of the function in \<open>M3ColorUtils\<close>: pure red is a valid
  colour whose contrast with black is 5.252, at least 4.5, in either namespace, so the rule
  asks for \<open>#000000\<close>.  The luminance 0.2126 does not exceed 0.5, and
  \<open>M3ColorUtils.getAccessibleTextColor\<close> returns \<open>#FFFFFF\<close>.
\<close>

theorem getAccessibleTextColor_red_counterexample:
  "wellFormedHex ''#FF0000''
   \<and> M3HCTColor_contrastRatio ''#FF0000'' ''#000000'' \<ge> 4.5
   \<and> M3ColorUtils_contrastRatio ''#FF0000'' ''#000000'' \<ge> 4.5
   \<and> M3ColorUtils_getAccessibleTextColor ''#FF0000'' = ''#FFFFFF''
   \<and> M3HCTColor_getAccessibleTextColor ''#FF0000'' = ''#000000''"
  by (simp add: M3ColorUtils_getAccessibleTextColor_eq M3HCTColor_getAccessibleTextColor_def
      M3HCTColor_contrastRatio_def M3ColorUtils_contrastRatio_def M3ColorUtils_hexToRgb_eq
      calculateLuminance_eq hexToRgb_black hexToRgb_red luminance_values wellFormedHex_values)


section \<open>The round trip of the seed through HCT\<close>

text \<open>
  What \<open>toHex\<close> would hand to \<open>rgbToHex\<close> for the seed \<open>#6750A4\<close>, had the call gone through.
  \<open>rgbToHct\<close> reads the sRGB channels as linear light, and \<open>toRgb\<close> gamma-encodes on the way
  back: the polar and the Lab steps undo each other exactly, the gamma step is not undone.
\<close>

subsection \<open>Polar form and back\<close>

lemma polar_atan2:
  "sqrt (a * a + bb * bb) * cos (atan2 bb a) = a \<and> sqrt (a * a + bb * bb) * sin (atan2 bb a) = bb"
proof -
  let ?t = "bb / a"
  have norm: "a \<noteq> 0 \<Longrightarrow> sqrt (a * a + bb * bb) = \<bar>a\<bar> * sqrt (1 + ?t\<^sup>2)"
  proof -
    assume a: "a \<noteq> 0"
    have "a * a + bb * bb = a\<^sup>2 * (1 + ?t\<^sup>2)"
      using a by (simp add: power2_eq_square field_simps)
    then show ?thesis
      by (simp add: real_sqrt_mult)
  qed
  have pos: "0 < sqrt (1 + ?t\<^sup>2)"
    by (simp add: add_pos_nonneg)
  consider (right) "a > 0" | (upleft) "a < 0" "bb \<ge> 0" | (downleft) "a < 0" "bb < 0"
    | (up) "a = 0" "bb > 0" | (down) "a = 0" "bb < 0" | (zero) "a = 0" "bb = 0"
    by linarith
  then show ?thesis
  proof cases
    case right
    then show ?thesis
      using norm pos by (simp add: atan2_def cos_arctan sin_arctan)
  next
    case upleft
    then show ?thesis
      using norm pos by (simp add: atan2_def cos_arctan sin_arctan)
  next
    case downleft
    then show ?thesis
      using norm pos by (simp add: atan2_def cos_arctan sin_arctan cos_diff sin_diff)
  next
    case up
    then show ?thesis by (simp add: atan2_def)
  next
    case down
    then show ?thesis by (simp add: atan2_def)
  next
    case zero
    then show ?thesis by (simp add: atan2_def)
  qed
qed

lemma hue_degrees:
  fixes t :: real
  defines "H \<equiv> (if (t * 180) / pi < 0 then (t * 180) / pi + 360 else (t * 180) / pi)"
  shows "cos ((H * pi) / 180) = cos t \<and> sin ((H * pi) / 180) = sin t"
proof (cases "(t * 180) / pi < 0")
  case True
  have "(((t * 180) / pi + 360) * pi) / 180 = t + 2 * pi"
    by (simp add: field_simps)
  then have "(H * pi) / 180 = t + 2 * pi"
    using True by (simp only: H_def if_True)
  then show ?thesis by (simp only: cos_periodic sin_periodic)
next
  case False
  have "(((t * 180) / pi) * pi) / 180 = t"
    by simp
  then have "(H * pi) / 180 = t"
    using False by (simp only: H_def if_False)
  then show ?thesis by (simp only:)
qed

lemma labFinv_labF:
  assumes "q > 0.008856"
  shows "labFinv (labF q) = q"
proof -
  have "0 < q" using assms by simp
  then have "root 3 q ^ 3 = q" by (simp add: real_root_pow_pos)
  then show ?thesis using assms by (simp add: labFinv_def labF_def)
qed


lemma toRgb_polar:
  fixes a bb fy :: real
  defines "C \<equiv> sqrt (a * a + bb * bb)"
  defines "H0 \<equiv> (atan2 bb a * 180) / pi"
  defines "H \<equiv> (if H0 < 0 then H0 + 360 else H0)"
  shows "toRgb \<lparr>hue = H, chroma = C * 0.8, tone = 116 * fy - 16\<rparr>
    = (let x = labFinv (fy + a / 500) * 0.95047;
           y = labFinv fy;
           z = labFinv (fy - bb / 200) * 1.08883
       in \<lparr>r = linearOut (3.2404542 * x - 1.5371385 * y - 0.4985314 * z),
           g = linearOut (- 0.9692660 * x + 1.8760108 * y + 0.0415560 * z),
           b = linearOut (0.0556434 * x - 0.2040259 * y + 1.0572252 * z)\<rparr>)"
proof -
  have trig: "cos ((H * pi) / 180) = cos (atan2 bb a)" "sin ((H * pi) / 180) = sin (atan2 bb a)"
    using hue_degrees [of "atan2 bb a"] unfolding H_def H0_def by blast+
  have pol: "C * cos (atan2 bb a) = a" "C * sin (atan2 bb a) = bb"
    using polar_atan2 [of a bb] by (simp_all add: C_def)
  have a': "C * 0.8 * cos ((H * pi) / 180) / 0.8 = a"
    using pol(1) trig(1) by simp
  have b': "C * 0.8 * sin ((H * pi) / 180) / 0.8 = bb"
    using pol(2) trig(2) by simp
  have fy': "(116 * fy - 16 + 16) / 116 = fy" by simp
  show ?thesis
    unfolding toRgb_def Let_def linearOut_def M3HCTColor.simps a' b' fy'
    by simp
qed

subsection \<open>Lab and back, and the gamma step\<close>

lemma toRgb_rgbToHct:
  fixes cr cg cb :: int
  defines "x \<equiv> 0.4124564 * (real_of_int cr / 255) + 0.3575761 * (real_of_int cg / 255)
                + 0.1804375 * (real_of_int cb / 255)"
  defines "y \<equiv> 0.2126729 * (real_of_int cr / 255) + 0.7151522 * (real_of_int cg / 255)
                + 0.0721750 * (real_of_int cb / 255)"
  defines "z \<equiv> 0.0193339 * (real_of_int cr / 255) + 0.1191920 * (real_of_int cg / 255)
                + 0.9503041 * (real_of_int cb / 255)"
  assumes big: "x / 0.95047 > 0.008856" "y > 0.008856" "z / 1.08883 > 0.008856"
  shows "(case rgbToHct cr cg cb of (h, c, t) \<Rightarrow> toRgb \<lparr>hue = h, chroma = c, tone = t\<rparr>)
           = \<lparr>r = linearOut (3.2404542 * x - 1.5371385 * y - 0.4985314 * z),
              g = linearOut (- 0.9692660 * x + 1.8760108 * y + 0.0415560 * z),
              b = linearOut (0.0556434 * x - 0.2040259 * y + 1.0572252 * z)\<rparr>"
proof -
  define fx fy fz where "fx = labF (x / 0.95047)" and "fy = labF y" and "fz = labF (z / 1.08883)"
  define a bb where "a = 500 * (fx - fy)" and "bb = 200 * (fy - fz)"
  define H where "H = (if (atan2 bb a * 180) / pi < 0 then (atan2 bb a * 180) / pi + 360
                       else (atan2 bb a * 180) / pi)"
  have hct: "rgbToHct cr cg cb = (H, sqrt (a * a + bb * bb) * 0.8, 116 * fy - 16)"
    by (simp add: rgbToHct_def Let_def H_def a_def bb_def fx_def fy_def fz_def x_def y_def z_def)
  have fxz: "fy + a / 500 = fx" "fy - bb / 200 = fz"
    by (simp_all add: a_def bb_def field_simps)
  have inv: "labFinv fx = x / 0.95047" "labFinv fy = y" "labFinv fz = z / 1.08883"
    using big by (simp_all add: fx_def fy_def fz_def labFinv_labF)
  show ?thesis
    using toRgb_polar [of bb a fy]
    by (simp add: hct H_def fxz inv Let_def)
qed

lemma gammaEncode_lower:
  assumes "0.36 \<le> v" "v \<le> 1"
  shows "0.578 \<le> gammaEncode v"
proof -
  have v0: "0 \<le> v" using assms by simp
  have "(0.6::real) = sqrt (0.6\<^sup>2)" by simp
  also have "\<dots> \<le> sqrt v"
    using assms by (intro real_sqrt_le_mono) (simp add: power2_eq_square)
  also have "sqrt v = v powr (1 / 2)"
    using v0 by (simp only: powr_half_sqrt)
  also have "\<dots> \<le> v powr (1 / 2.4)"
    using assms v0 by (intro powr_mono') simp_all
  finally have "0.6 \<le> v powr (1 / 2.4)" .
  then have "0.578 \<le> 1.055 * (v powr (1 / 2.4)) - 0.055" by simp
  moreover have "v > 0.0031308" using assms by simp
  ultimately show ?thesis
    by (simp only: gammaEncode_def if_True)
qed

lemma linearOut_lower:
  assumes "0.36 \<le> v" "v \<le> 1"
  shows "147 \<le> linearOut v"
proof -
  have "0.578 \<le> clip01 (gammaEncode v)"
    using gammaEncode_lower [OF assms] by (simp add: clip01_def)
  then have "147 \<le> clip01 (gammaEncode v) * 255 + 1 / 2"
    by simp
  then show ?thesis
    by (simp add: linearOut_def mathRound_def le_floor_iff)
qed

lemma hexToRgb_seed: "M3HCTColor_hexToRgb ''#6750A4'' = \<lparr>r = 103, g = 80, b = 164\<rparr>"
  by (simp add: M3HCTColor_hexToRgb_def hexRegExp_exec_def hexClass_def parseInt16_def hexDigitValue_def)

text \<open>The red channel of the seed is 103; after the round trip it is at least 147.\<close>

lemma toRgb_fromHex_seed: "147 \<le> r (toRgb (fromHex ''#6750A4''))"
proof -
  have "toRgb (fromHex ''#6750A4'')
          = (case rgbToHct 103 80 164 of (h, c, t) \<Rightarrow> toRgb \<lparr>hue = h, chroma = c, tone = t\<rparr>)"
    by (simp add: fromHex_def hexToRgb_seed Let_def split: prod.split)
  then show ?thesis
    by (simp add: toRgb_rgbToHct linearOut_lower)
qed

lemma mathRound_clip01: "0 \<le> mathRound (clip01 u * 255) \<and> mathRound (clip01 u * 255) \<le> 255"
proof -
  have "0 \<le> clip01 u" "clip01 u \<le> 1"
    by (simp_all add: clip01_def)
  then have "0 \<le> clip01 u * 255 + 1 / 2" "clip01 u * 255 + 1 / 2 < 256"
    by simp_all
  then have "0 \<le> \<lfloor>clip01 u * 255 + 1 / 2\<rfloor>" "\<lfloor>clip01 u * 255 + 1 / 2\<rfloor> < 256"
    by (simp_all add: floor_less_iff)
  then show ?thesis
    by (simp add: mathRound_def)
qed

lemma toRgb_range:
  "0 \<le> r (toRgb c) \<and> r (toRgb c) \<le> 255 \<and> 0 \<le> g (toRgb c) \<and> g (toRgb c) \<le> 255
     \<and> 0 \<le> b (toRgb c) \<and> b (toRgb c) \<le> 255"
  by (simp add: toRgb_def Let_def mathRound_clip01)

text \<open>So the hex string of the round trip is not the seed.\<close>

lemma seed_not_reproduced:
  "M3HCTColor_rgbToHex (Num (r (toRgb (fromHex ''#6750A4'')))) (Num (g (toRgb (fromHex ''#6750A4''))))
       (Num (b (toRgb (fromHex ''#6750A4''))))
     \<noteq> ''#6750A4''"
proof
  let ?rgb = "toRgb (fromHex ''#6750A4'')"
  assume "M3HCTColor_rgbToHex (Num (r ?rgb)) (Num (g ?rgb)) (Num (b ?rgb)) = ''#6750A4''"
  then have "M3HCTColor_hexToRgb (M3HCTColor_rgbToHex (Num (r ?rgb)) (Num (g ?rgb)) (Num (b ?rgb)))
               = M3HCTColor_hexToRgb ''#6750A4''"
    by (simp only:)
  then have "\<lparr>r = r ?rgb, g = g ?rgb, b = b ?rgb\<rparr> = \<lparr>r = 103, g = 80, b = 164\<rparr>"
    using toRgb_range [of "fromHex ''#6750A4''"]
    by (simp only: hexToRgb_rgbToHex_bytes hexToRgb_seed)
  then have "r ?rgb = 103" by simp
  then show False using toRgb_fromHex_seed by simp
qed

section \<open>Properties of the extractor\<close>

subsection \<open>The histogram\<close>

lemma countColor_not_Nil: "countColor k m \<noteq> []"
  by (induction k m rule: countColor.induct) auto

lemma buildColorMap_not_Nil: "m \<noteq> [] \<Longrightarrow> buildColorMap pixels m \<noteq> []"
  by (induction pixels m rule: buildColorMap.induct) (simp_all add: countColor_not_Nil)

lemma buildColorMap_Nil_iff:
  assumes "length pixels mod 4 = 0"
  shows "(buildColorMap pixels m = []) = (m = [] \<and> allTransparent pixels)"
  using assms
proof (induction pixels m rule: buildColorMap.induct)
  case (5 pr pg pb pa rest m)
  then have "length rest mod 4 = 0" by simp
  with 5 show ?case
    by (auto simp: allTransparent_def buildColorMap_not_Nil countColor_not_Nil)
qed (simp_all add: allTransparent_def)

subsection \<open>The candidates\<close>

lemma length_sortByCount: "length (sortByCount m) = length m"
  by (simp add: sortByCount_def)

lemma length_slice0: "length (slice0 xs e) \<le> length xs"
  by (simp add: slice0_def min_def)

lemma slice0_not_Nil: "xs \<noteq> [] \<Longrightarrow> 1 \<le> e \<Longrightarrow> slice0 xs e \<noteq> []"
  by (simp add: slice0_def)

lemma slice0_zero: "slice0 xs 0 = []"
  by (simp add: slice0_def)

subsection \<open>The filter loop\<close>

lemma distinctLoop_at_most:
  "int (length acc) < k \<Longrightarrow> int (length (distinctLoop xs k acc)) \<le> k"
  by (induction xs k acc rule: distinctLoop.induct) (auto simp: Let_def)

lemma distinctLoop_length:
  "length (distinctLoop xs k acc) \<le> length acc + length xs"
proof (induction xs arbitrary: acc)
  case Nil
  show ?case by simp
next
  case (Cons x xs)
  obtain cr cg cb n where x: "x = ((cr, cg, cb), n)"
    by (cases x) auto
  have skip: "length (distinctLoop xs k acc) \<le> length acc + length (x # xs)"
    using Cons.IH [of acc] by simp
  have keep: "length (distinctLoop xs k (acc @ [M3HCTColor_rgbToHex cr cg cb]))
                \<le> length acc + length (x # xs)"
    using Cons.IH [of "acc @ [M3HCTColor_rgbToHex cr cg cb]"] by simp
  show ?case
    using skip keep by (simp add: x Let_def)
qed

lemma distinctLoop_keeps: "acc \<noteq> [] \<Longrightarrow> distinctLoop xs k acc \<noteq> []"
  by (induction xs k acc rule: distinctLoop.induct) (auto simp: Let_def)

lemma distinctLoop_first:
  assumes "xs \<noteq> []"
  shows "distinctLoop xs k [] \<noteq> []"
proof -
  from assms obtain cr cg cb n rest where xs: "xs = ((cr, cg, cb), n) # rest"
    by (cases xs) auto
  show ?thesis
    using distinctLoop_keeps [of "[M3HCTColor_rgbToHex cr cg cb]" rest k]
    by (simp add: xs Let_def)
qed

lemma distinctEnough_snoc:
  "distinctEnough (acc @ [c]) =
     (list_all (\<lambda>e. M3HCTColor_contrastRatio c e > 1.5) acc \<and> distinctEnough acc)"
  by (simp add: distinctEnough_def list_all_iff)

lemma distinctLoop_distinctEnough:
  "distinctEnough acc \<Longrightarrow> distinctEnough (distinctLoop xs k acc)"
  by (induction xs k acc rule: distinctLoop.induct) (auto simp: Let_def distinctEnough_snoc)

text \<open>
  Claim C8, as the code has it: for every pixel array and every count \<open>k\<close> that is not
  negative, \<open>extractColorsFromPixels\<close> returns at most \<open>k\<close> colours; it returns no more colours
  than the histogram has buckets, each with a contrast above 1.5 to every colour before it;
  and for \<open>k\<close> at least 1 and an array of whole RGBA pixels, the result is empty exactly when
  every pixel has an alpha below 128 (an array without pixels included).
\<close>

theorem extractColorsFromPixels_count:
  "(0 \<le> k \<longrightarrow> int (length (extractColorsFromPixels pixels k)) \<le> k)
   \<and> length (extractColorsFromPixels pixels k) \<le> length (buildColorMap pixels [])
   \<and> distinctEnough (extractColorsFromPixels pixels k)
   \<and> (1 \<le> k \<and> length pixels mod 4 = 0 \<longrightarrow>
        (extractColorsFromPixels pixels k = []) = allTransparent pixels)"
proof (intro conjI impI)
  assume k: "0 \<le> k"
  show "int (length (extractColorsFromPixels pixels k)) \<le> k"
  proof (cases "k = 0")
    case True
    then show ?thesis by (simp add: extractColorsFromPixels_def slice0_zero)
  next
    case False
    with k have "int (length ([]::string list)) < k" by simp
    then show ?thesis
      unfolding extractColorsFromPixels_def Let_def by (rule distinctLoop_at_most)
  qed
next
  have "length (extractColorsFromPixels pixels k)
          \<le> length (slice0 (sortByCount (buildColorMap pixels [])) (k * 2))"
    using distinctLoop_length [of "slice0 (sortByCount (buildColorMap pixels [])) (k * 2)" k "[]"]
    by (simp add: extractColorsFromPixels_def)
  also have "\<dots> \<le> length (buildColorMap pixels [])"
    using length_slice0 [of "sortByCount (buildColorMap pixels [])" "k * 2"]
    by (simp add: length_sortByCount)
  finally show "length (extractColorsFromPixels pixels k) \<le> length (buildColorMap pixels [])" .
next
  show "distinctEnough (extractColorsFromPixels pixels k)"
    unfolding extractColorsFromPixels_def Let_def
    by (rule distinctLoop_distinctEnough) (simp add: distinctEnough_def)
next
  assume h: "1 \<le> k \<and> length pixels mod 4 = 0"
  let ?m = "buildColorMap pixels []"
  let ?cands = "slice0 (sortByCount ?m) (k * 2)"
  have m: "(?m = []) = allTransparent pixels"
    using h buildColorMap_Nil_iff [of pixels "[]"] by simp
  have sorted: "(sortByCount ?m = []) = (?m = [])"
    using length_sortByCount [of ?m] by (metis length_0_conv)
  show "(extractColorsFromPixels pixels k = []) = allTransparent pixels"
  proof (cases "?m = []")
    case True
    then have "sortByCount ?m = []" by (simp add: sortByCount_def)
    then have "?cands = []" by (simp add: slice0_def)
    then have "extractColorsFromPixels pixels k = []"
      by (simp add: extractColorsFromPixels_def)
    with True m show ?thesis by simp
  next
    case False
    then have "sortByCount ?m \<noteq> []" by (simp add: sorted)
    then have "?cands \<noteq> []" using h by (intro slice0_not_Nil) simp_all
    then have "extractColorsFromPixels pixels k \<noteq> []"
      unfolding extractColorsFromPixels_def Let_def by (rule distinctLoop_first)
    with False m show ?thesis by simp
  qed
qed

lemma rgbToHex_F00000: "M3HCTColor_rgbToHex (Num 240) (Num 0) (Num 0) = ''#F00000''"
  by (simp add: M3HCTColor_rgbToHex_def channelHex_def toUpperCase_def
      toUpperChar_def toString16_nat.simps hexDigitChar_def)

theorem extractColorsFromPixels_count_witness:
  "extractColorsFromPixels [255, 0, 0, 255, 250, 3, 3, 200, 9, 9, 9, 0] 5 = [''#F00000'']
   \<and> \<not> allTransparent [255, 0, 0, 255, 250, 3, 3, 200, 9, 9, 9, 0]
   \<and> int (length (extractColorsFromPixels [255, 0, 0, 255, 250, 3, 3, 200, 9, 9, 9, 0] 5)) \<le> 5"
proof -
  let ?p = "[255, 0, 0, 255, 250, 3, 3, 200, 9, 9, 9, 0] :: nat list"
  have v: "extractColorsFromPixels ?p 5 = [''#F00000'']"
    by (simp add: extractColorsFromPixels_def slice0_def quantize_def sortByCount_def rgbToHex_F00000)
  have h: "(0::int) \<le> 5" "(1::int) \<le> 5 \<and> length ?p mod 4 = 0" by simp_all
  from extractColorsFromPixels_count [of 5 ?p] h v show ?thesis
    by (simp add: allTransparent_def)
qed

text \<open>
  The claim as the spec states it, for every count: with \<open>k = 0\<close> one opaque pixel gives the
  empty result, so an empty result does not need transparent pixels.
\<close>

theorem extractColorsFromPixels_zero_counterexample:
  "extractColorsFromPixels [255, 0, 0, 255] 0 = [] \<and> \<not> allTransparent [255, 0, 0, 255]
     \<and> [255, 0, 0, 255] \<noteq> ([] :: nat list)"
  by (simp add: extractColorsFromPixels_def slice0_def allTransparent_def)

subsection \<open>The primary colour\<close>

text \<open>
  Claim C9: \<open>extractPrimaryColor\<close> of the empty list returns the default seed \<open>#6750A4\<close>, a
  result and not an error.
\<close>

theorem extractPrimaryColor_empty: "extractPrimaryColor [] = Inr ''#6750A4''"
  by (simp add: extractPrimaryColor_def)

lemma extractPrimaryColor_member:
  assumes "colors \<noteq> []"
  shows "\<exists>c \<in> set colors. extractPrimaryColor colors = Inr c"
proof -
  let ?scored = "map (\<lambda>color. (color, scoreColor color)) colors"
  let ?sorted = "sort_key (\<lambda>(color, score). - score) ?scored"
  have "length ?sorted = length colors" by simp
  with assms obtain c s rest where sorted: "?sorted = (c, s) # rest"
    by (cases ?sorted) auto
  then have "(c, s) \<in> set ?sorted" by simp
  then have "(c, s) \<in> set ?scored" by simp
  then have "c \<in> set colors" by auto
  moreover have "extractPrimaryColor colors = Inr c"
    using assms sorted by (simp add: extractPrimaryColor_def)
  ultimately show ?thesis by blast
qed

lemma rgbToHct_black: "rgbToHct 0 0 0 = (0, 0, 0)"
  by (simp add: rgbToHct_def labF_def atan2_def)

lemma saturation_black: "saturationOf \<lparr>r = 0, g = 0, b = 0\<rparr> = NotANumber"
  by (simp add: saturationOf_def jsDivide_def)

lemma scoreColor_black: "scoreColor ''#000000'' = - 80"
  by (simp add: scoreColor_def fromHex_def hexToRgb_black rgbToHct_black saturation_black
      saturationBonus_def)

text \<open>
  Claim C10: on a list that is not empty \<open>extractPrimaryColor\<close> returns one of the colours of
  the list, and no error.  For pure black the saturation \<open>0 / 0\<close> is \<open>NaN\<close>, both comparisons
  are false and there is no saturation bonus; the score of black is \<open>-80\<close>.
\<close>

theorem extractPrimaryColor_total:
  "(colors \<noteq> [] \<longrightarrow> (\<exists>c \<in> set colors. extractPrimaryColor colors = Inr c))
   \<and> saturationOf (M3HCTColor_hexToRgb ''#000000'') = NotANumber
   \<and> saturationBonus (saturationOf (M3HCTColor_hexToRgb ''#000000'')) = 0
   \<and> scoreColor ''#000000'' = - 80"
  by (simp add: extractPrimaryColor_member hexToRgb_black saturation_black saturationBonus_def
      scoreColor_black)

theorem extractPrimaryColor_total_witness:
  "[''#000000''] \<noteq> [] \<and> extractPrimaryColor [''#000000''] = Inr ''#000000''"
  using extractPrimaryColor_total [of "[''#000000'']"] by simp


end
